theory Spec2Isabelle
  imports Main "HOL-Library.Word"
begin

section \<open>Python values\<close>

text \<open>
  A Python \<open>str\<close> is a sequence of Unicode code points; \<open>in\<close>, iteration and indexing
  all count code points, so a string is modelled as the list of its code points.
  ASCII literals of the source are written through \<open>ascii\<close>; the Japanese literals are
  written out as code points.
\<close>

type_synonym pystr = "nat list"

definition ascii :: "string \<Rightarrow> pystr" where
  "ascii s = map of_char s"

text \<open>A Python \<open>float\<close> is an IEEE-754 binary64 value, kept as its bit pattern.\<close>

type_synonym pyfloat = "64 word"

text \<open>
  What \<open>response.json()\<close> can return: \<open>None\<close>, \<open>bool\<close>, \<open>int\<close>, \<open>float\<close>, \<open>str\<close>,
  \<open>list\<close> and \<open>dict\<close> with string keys. A dictionary is an association list read with
  \<open>map_of\<close>; the parser never builds one with a repeated key.
\<close>

datatype json =
    JNull
  | JBool bool
  | JInt int
  | JFloat pyfloat
  | JStr pystr
  | JList "json list"
  | JDict "(pystr \<times> json) list"

text \<open>The exceptions the modelled code can raise; every one is a subclass of \<open>Exception\<close>.\<close>

datatype pyerr =
    KeyError
  | TypeError
  | AttributeError
  | RequestError
  | HTTPStatusError
  | JSONDecodeError

definition and_then :: "pyerr + 'a \<Rightarrow> ('a \<Rightarrow> pyerr + 'b) \<Rightarrow> pyerr + 'b" where
  "and_then m f = (case m of Inl e \<Rightarrow> Inl e | Inr x \<Rightarrow> f x)"

text \<open>Truth value testing, as \<open>if v:\<close> and \<open>not v\<close> do it. A float is false when it is
  \<open>0.0\<close> or \<open>-0.0\<close>, that is when all bits but the sign are clear.\<close>

fun truthy :: "json \<Rightarrow> bool" where
  "truthy JNull = False"
| "truthy (JBool b) = b"
| "truthy (JInt i) = (i \<noteq> 0)"
| "truthy (JFloat f) = (take_bit 63 f \<noteq> 0)"
| "truthy (JStr s) = (s \<noteq> [])"
| "truthy (JList xs) = (xs \<noteq> [])"
| "truthy (JDict kvs) = (kvs \<noteq> [])"

text \<open>\<open>needle in haystack\<close> on two strings: a contiguous run of code points.\<close>

fun starts_with :: "'a list \<Rightarrow> 'a list \<Rightarrow> bool" where
  "starts_with [] ys = True"
| "starts_with (x # xs) [] = False"
| "starts_with (x # xs) (y # ys) = (x = y \<and> starts_with xs ys)"

fun str_contains :: "'a list \<Rightarrow> 'a list \<Rightarrow> bool" where
  "str_contains [] needle = (needle = [])"
| "str_contains (h # hs) needle = (starts_with needle (h # hs) \<or> str_contains hs needle)"

text \<open>\<open>k in v\<close> for a string \<open>k\<close>: substring test on a string, element test on a list,
  key test on a dictionary, \<open>TypeError\<close> on anything else.\<close>

fun py_in :: "pystr \<Rightarrow> json \<Rightarrow> pyerr + bool" where
  "py_in k (JStr s) = Inr (str_contains s k)"
| "py_in k (JList xs) = Inr (JStr k \<in> set xs)"
| "py_in k (JDict kvs) = Inr (k \<in> fst ` set kvs)"
| "py_in k _ = Inl TypeError"

text \<open>\<open>v[k]\<close> for a string \<open>k\<close>: \<open>KeyError\<close> on a dictionary without the key,
  \<open>TypeError\<close> on every other value (lists and strings take integer indices only).\<close>

fun py_getitem :: "json \<Rightarrow> pystr \<Rightarrow> pyerr + json" where
  "py_getitem (JDict kvs) k = (case map_of kvs k of Some v \<Rightarrow> Inr v | None \<Rightarrow> Inl KeyError)"
| "py_getitem _ k = Inl TypeError"

text \<open>\<open>v.get(k, d)\<close>: only a dictionary has the method.\<close>

fun py_get :: "json \<Rightarrow> pystr \<Rightarrow> json \<Rightarrow> pyerr + json" where
  "py_get (JDict kvs) k d = Inr (case map_of kvs k of Some v \<Rightarrow> v | None \<Rightarrow> d)"
| "py_get _ k d = Inl AttributeError"

text \<open>\<open>for x in v\<close>: the elements of a list, the keys of a dictionary, the one-character
  strings of a string; \<open>TypeError\<close> on a value that is not iterable.\<close>

fun py_iter :: "json \<Rightarrow> pyerr + json list" where
  "py_iter (JList xs) = Inr xs"
| "py_iter (JDict kvs) = Inr (map (\<lambda>kv. JStr (fst kv)) kvs)"
| "py_iter (JStr s) = Inr (map (\<lambda>c. JStr [c]) s)"
| "py_iter _ = Inl TypeError"

text \<open>\<open>v[:n]\<close>: a list or a string is cut; a dictionary rejects the slice key
  (\<open>TypeError\<close> before Python 3.12, \<open>KeyError\<close> from 3.12 on; the former is modelled)
  and no other value is subscriptable.\<close>

fun py_slice_to :: "nat \<Rightarrow> json \<Rightarrow> pyerr + json" where
  "py_slice_to n (JList xs) = Inr (JList (take n xs))"
| "py_slice_to n (JStr s) = Inr (JStr (take n s))"
| "py_slice_to n _ = Inl TypeError"

text \<open>
  \<open>{v}\<close> in an f-string is \<open>str(v)\<close>: a string is inserted as it is. The text Python
  prints for every other value (\<open>repr\<close> of floats, quoting inside containers) is not
  part of this repository and is taken as the parameter \<open>str_of\<close>.
\<close>

definition py_format :: "(json \<Rightarrow> pystr) \<Rightarrow> json \<Rightarrow> pystr" where
  "py_format str_of v = (case v of JStr s \<Rightarrow> s | _ \<Rightarrow> str_of v)"

text \<open>\<open>sep.join(parts)\<close>.\<close>

fun join :: "pystr \<Rightarrow> pystr list \<Rightarrow> pystr" where
  "join sep [] = []"
| "join sep [x] = x"
| "join sep (x # y # ys) = x @ sep @ join sep (y # ys)"

text \<open>A list comprehension whose element expression may raise: the first exception
  ends it.\<close>

fun map_result :: "('a \<Rightarrow> pyerr + 'b) \<Rightarrow> 'a list \<Rightarrow> pyerr + 'b list" where
  "map_result f [] = Inr []"
| "map_result f (x # xs) =
     (case f x of
        Inl e \<Rightarrow> Inl e
      | Inr y \<Rightarrow> (case map_result f xs of Inl e \<Rightarrow> Inl e | Inr ys \<Rightarrow> Inr (y # ys)))"

section \<open>The HTTP collaborator\<close>

text \<open>
  \<open>client.get(url, headers=..., timeout=30.0)\<close> is outside the repository. A request
  records what the code passes; the client is a parameter that answers a request, given
  the requests made before it, either by raising or with a status code and a body.
  The body is given by what \<open>response.json()\<close> makes of it: \<open>None\<close> when it does not
  parse.
\<close>

record request =
  url :: json
  headers :: "(pystr \<times> pystr) list"
  timeout :: nat

datatype http_outcome =
    GetRaises
  | GetResponse nat "json option"

type_synonym client = "request list \<Rightarrow> request \<Rightarrow> http_outcome"

text \<open>Modelled from the spec: \<open>raise_for_status\<close> of the HTTP library, which the spec
  describes as turning every non-2xx status code into a failure.\<close>

definition is_success :: "nat \<Rightarrow> bool" where
  "is_success status = (200 \<le> status \<and> status < 300)"

text \<open>The three lines \<open>response = await client.get(...)\<close>,
  \<open>response.raise_for_status()\<close>, \<open>response.json()\<close>, which both fetching functions
  run inside their \<open>try\<close>.\<close>

definition fetch_json :: "client \<Rightarrow> request list \<Rightarrow> request \<Rightarrow> pyerr + json" where
  "fetch_json get log req =
     (case get log req of
        GetRaises \<Rightarrow> Inl RequestError
      | GetResponse status body \<Rightarrow>
          if \<not> is_success status then Inl HTTPStatusError
          else (case body of None \<Rightarrow> Inl JSONDecodeError | Some v \<Rightarrow> Inr v))"

section \<open>weather.py\<close>

definition NWS_API_BASE :: pystr where
  "NWS_API_BASE = ascii ''https://api.weather.gov''"

definition USER_AGENT :: pystr where
  "USER_AGENT = ascii ''weather-app/1.0''"

subsection \<open>make_nws_request\<close>

definition nws_request :: "json \<Rightarrow> request" where
  "nws_request u =
     \<lparr>url = u,
      headers = [(ascii ''User-Agent'', USER_AGENT), (ascii ''Accept'', ascii ''application/geo+json'')],
      timeout = 30\<rparr>"

text \<open>\<open>except Exception: return None\<close> turns every exception of the \<open>try\<close> block into
  the value \<open>None\<close>. The result is paired with the extended request log.\<close>

definition make_nws_request ::
  "client \<Rightarrow> json \<Rightarrow> request list \<Rightarrow> (pyerr + json) \<times> request list" where
  "make_nws_request get u log =
     (case fetch_json get log (nws_request u) of
        Inl e \<Rightarrow> (Inr JNull, log @ [nws_request u])
      | Inr v \<Rightarrow> (Inr v, log @ [nws_request u]))"

subsection \<open>format_alert\<close>

definition nl :: pystr where
  "nl = [10]"

definition format_alert :: "(json \<Rightarrow> pystr) \<Rightarrow> json \<Rightarrow> pyerr + pystr" where
  "format_alert str_of feature =
     and_then (py_getitem feature (ascii ''properties'')) (\<lambda>props.
     and_then (py_get props (ascii ''event'') (JStr (ascii ''Unknown''))) (\<lambda>event.
     and_then (py_get props (ascii ''areaDesc'') (JStr (ascii ''Unknown''))) (\<lambda>area.
     and_then (py_get props (ascii ''severity'') (JStr (ascii ''Unknown''))) (\<lambda>severity.
     and_then (py_get props (ascii ''description'') (JStr (ascii ''No description available''))) (\<lambda>description.
     and_then (py_get props (ascii ''instruction'') (JStr (ascii ''No specific instructions provided''))) (\<lambda>instruction.
       Inr (nl @ ascii ''Event: '' @ py_format str_of event
          @ nl @ ascii ''Area: '' @ py_format str_of area
          @ nl @ ascii ''Severity: '' @ py_format str_of severity
          @ nl @ ascii ''Description: '' @ py_format str_of description
          @ nl @ ascii ''Instructions: '' @ py_format str_of instruction
          @ nl)))))))"

subsection \<open>get_alerts\<close>

definition alerts_unable :: pystr where
  "alerts_unable = ascii ''Unable to fetch alerts or no alerts found.''"

definition alerts_none :: pystr where
  "alerts_none = ascii ''No active alerts for this state.''"

text \<open>The separator line (newline, three dashes, newline) that \<open>get_alerts\<close> and
  \<open>get_forecast\<close> join their blocks with.\<close>

definition separator :: pystr where
  "separator = nl @ ascii ''---'' @ nl"

text \<open>The part of \<open>get_alerts\<close> after the fetch, on the value \<open>data\<close> it returned.\<close>

definition alerts_of :: "(json \<Rightarrow> pystr) \<Rightarrow> json \<Rightarrow> pyerr + pystr" where
  "alerts_of str_of data =
     (if \<not> truthy data then Inr alerts_unable
      else and_then (py_in (ascii ''features'') data) (\<lambda>present.
        if \<not> present then Inr alerts_unable
        else and_then (py_getitem data (ascii ''features'')) (\<lambda>features.
          if \<not> truthy features then Inr alerts_none
          else and_then (py_iter features) (\<lambda>items.
            and_then (map_result (format_alert str_of) items) (\<lambda>alerts.
              Inr (join separator alerts))))))"

definition alerts_url :: "pystr \<Rightarrow> pystr" where
  "alerts_url state = NWS_API_BASE @ ascii ''/alerts/active/area/'' @ state"

definition get_alerts ::
  "client \<Rightarrow> (json \<Rightarrow> pystr) \<Rightarrow> pystr \<Rightarrow> request list \<Rightarrow> (pyerr + pystr) \<times> request list" where
  "get_alerts get str_of state log =
     (case make_nws_request get (JStr (alerts_url state)) log of
        (Inl e, log') \<Rightarrow> (Inl e, log')
      | (Inr data, log') \<Rightarrow> (alerts_of str_of data, log'))"

subsection \<open>get_tokyo_weather\<close>

definition tokyo_request :: request where
  "tokyo_request =
     \<lparr>url = JStr (ascii ''https://www.jma.go.jp/bosai/forecast/data/forecast/130000.json''),
      headers = [(ascii ''User-Agent'', USER_AGENT), (ascii ''Accept'', ascii ''application/json'')],
      timeout = 30\<rparr>"

text \<open>The tuple \<open>preferred_names\<close>: the code points of the three literals
  (Tokyo-chihou, Tokyo in kanji, and \<open>Tokyo\<close>).\<close>

definition preferred_names :: "pystr list" where
  "preferred_names = [[26481, 20140, 22320, 26041], [26481, 20140], ascii ''Tokyo'']"

text \<open>The success prefix (kanji text ending in a colon and a space) and the failure
  message of the source, as code points.\<close>

definition tokyo_prefix :: pystr where
  "tokyo_prefix = [26481, 20140, 12398, 20170, 26085, 12398, 22825, 27671, 58, 32]"

definition tokyo_failure :: pystr where
  "tokyo_failure =
     [26481, 20140, 12398, 22825, 27671, 24773, 22577, 12434, 21462, 24471,
      12391, 12365, 12414, 12379, 12435, 12391, 12375, 12383, 12290]"

text \<open>\<open>obj.get("timeSeries", []) if isinstance(obj, dict) else []\<close> and the same
  expression for \<open>"areas"\<close>.\<close>

definition time_series_of :: "json \<Rightarrow> json" where
  "time_series_of obj =
     (case obj of
        JDict kvs \<Rightarrow> (case map_of kvs (ascii ''timeSeries'') of Some v \<Rightarrow> v | None \<Rightarrow> JList [])
      | _ \<Rightarrow> JList [])"

definition areas_of :: "json \<Rightarrow> json" where
  "areas_of ts =
     (case ts of
        JDict kvs \<Rightarrow> (case map_of kvs (ascii ''areas'') of Some v \<Rightarrow> v | None \<Rightarrow> JList [])
      | _ \<Rightarrow> JList [])"

text \<open>\<open>any(name in area_name for name in preferred_names)\<close>: the names are tried in
  order, and a test that raises ends the call.\<close>

fun any_in :: "pystr list \<Rightarrow> json \<Rightarrow> pyerr + bool" where
  "any_in [] v = Inr False"
| "any_in (n # ns) v =
     (case py_in n v of
        Inl e \<Rightarrow> Inl e
      | Inr True \<Rightarrow> Inr True
      | Inr False \<Rightarrow> any_in ns v)"

text \<open>The non-empty list under \<open>"weathers"\<close>, when the area has one: its first entry.\<close>

definition weathers_head :: "(pystr \<times> json) list \<Rightarrow> json option" where
  "weathers_head kvs =
     (case map_of kvs (ascii ''weathers'') of
        Some (JList (w # ws)) \<Rightarrow> Some w
      | _ \<Rightarrow> None)"

definition area_name_of :: "(pystr \<times> json) list \<Rightarrow> json" where
  "area_name_of kvs =
     (case map_of kvs (ascii ''area'') of
        Some (JDict info) \<Rightarrow> (case map_of info (ascii ''name'') of Some v \<Rightarrow> v | None \<Rightarrow> JStr [])
      | _ \<Rightarrow> JStr [])"

text \<open>The body of the innermost loop of the preferred pass on one area: \<open>None\<close> is
  \<open>continue\<close> (or falling off the end of the body), \<open>Some w\<close> is the assignment
  \<open>today_weather = weathers[0]\<close> followed by \<open>break\<close>.\<close>

definition preferred_area :: "json \<Rightarrow> pyerr + json option" where
  "preferred_area area =
     (case area of
        JDict kvs \<Rightarrow>
          (case weathers_head kvs of
             None \<Rightarrow> Inr None
           | Some w \<Rightarrow>
               (case any_in preferred_names (area_name_of kvs) of
                  Inl e \<Rightarrow> Inl e
                | Inr True \<Rightarrow> Inr (Some w)
                | Inr False \<Rightarrow> Inr None))
      | _ \<Rightarrow> Inr None)"

text \<open>The three loops of the preferred pass. Each takes the current value of
  \<open>today_weather\<close> and returns the value it has when the loop is left.\<close>

fun preferred_areas :: "json \<Rightarrow> json list \<Rightarrow> pyerr + json" where
  "preferred_areas tw [] = Inr tw"
| "preferred_areas tw (area # rest) =
     (case preferred_area area of
        Inl e \<Rightarrow> Inl e
      | Inr None \<Rightarrow> preferred_areas tw rest
      | Inr (Some w) \<Rightarrow> Inr w)"

fun preferred_series :: "json \<Rightarrow> json list \<Rightarrow> pyerr + json" where
  "preferred_series tw [] = Inr tw"
| "preferred_series tw (ts # rest) =
     (case py_iter (areas_of ts) of
        Inl e \<Rightarrow> Inl e
      | Inr areas \<Rightarrow>
          (case preferred_areas tw areas of
             Inl e \<Rightarrow> Inl e
           | Inr tw' \<Rightarrow> if truthy tw' then Inr tw' else preferred_series tw' rest))"

fun preferred_reports :: "json \<Rightarrow> json list \<Rightarrow> pyerr + json" where
  "preferred_reports tw [] = Inr tw"
| "preferred_reports tw (obj # rest) =
     (case py_iter (time_series_of obj) of
        Inl e \<Rightarrow> Inl e
      | Inr series \<Rightarrow>
          (case preferred_series tw series of
             Inl e \<Rightarrow> Inl e
           | Inr tw' \<Rightarrow> if truthy tw' then Inr tw' else preferred_reports tw' rest))"

text \<open>The three loops of the fallback pass. In the innermost one the first area that is
  a dictionary ends the loop, with or without an assignment (the second \<open>break\<close> of the
  source stands directly under \<open>if isinstance(area, dict)\<close>).\<close>

fun fallback_areas :: "json \<Rightarrow> json list \<Rightarrow> json" where
  "fallback_areas tw [] = tw"
| "fallback_areas tw (area # rest) =
     (case area of
        JDict kvs \<Rightarrow> (case weathers_head kvs of Some w \<Rightarrow> w | None \<Rightarrow> tw)
      | _ \<Rightarrow> fallback_areas tw rest)"

fun fallback_series :: "json \<Rightarrow> json list \<Rightarrow> pyerr + json" where
  "fallback_series tw [] = Inr tw"
| "fallback_series tw (ts # rest) =
     (case py_iter (areas_of ts) of
        Inl e \<Rightarrow> Inl e
      | Inr areas \<Rightarrow>
          (let tw' = fallback_areas tw areas
           in if truthy tw' then Inr tw' else fallback_series tw' rest))"

fun fallback_reports :: "json \<Rightarrow> json list \<Rightarrow> pyerr + json" where
  "fallback_reports tw [] = Inr tw"
| "fallback_reports tw (obj # rest) =
     (case py_iter (time_series_of obj) of
        Inl e \<Rightarrow> Inl e
      | Inr series \<Rightarrow>
          (case fallback_series tw series of
             Inl e \<Rightarrow> Inl e
           | Inr tw' \<Rightarrow> if truthy tw' then Inr tw' else fallback_reports tw' rest))"

text \<open>\<open>if isinstance(data, list): ...\<close> around the preferred pass, starting from
  \<open>today_weather = None\<close>, and \<open>if not today_weather and isinstance(data, list): ...\<close>
  around the fallback pass.\<close>

definition preferred_pass :: "json \<Rightarrow> pyerr + json" where
  "preferred_pass data = (case data of JList objs \<Rightarrow> preferred_reports JNull objs | _ \<Rightarrow> Inr JNull)"

definition fallback_pass :: "json \<Rightarrow> json \<Rightarrow> pyerr + json" where
  "fallback_pass tw data =
     (case data of
        JList objs \<Rightarrow> if \<not> truthy tw then fallback_reports tw objs else Inr tw
      | _ \<Rightarrow> Inr tw)"

text \<open>Everything in the \<open>try\<close> block after \<open>data = response.json()\<close>.\<close>

definition tokyo_weather_of :: "(json \<Rightarrow> pystr) \<Rightarrow> json \<Rightarrow> pyerr + pystr" where
  "tokyo_weather_of str_of data =
     and_then (preferred_pass data) (\<lambda>tw.
     and_then (fallback_pass tw data) (\<lambda>today_weather.
       if truthy today_weather then Inr (tokyo_prefix @ py_format str_of today_weather)
       else Inr tokyo_failure))"

text \<open>The whole handler: the \<open>try\<close> block, and \<open>except Exception\<close> returning the
  failure message.\<close>

definition get_tokyo_weather ::
  "client \<Rightarrow> (json \<Rightarrow> pystr) \<Rightarrow> request list \<Rightarrow> (pyerr + pystr) \<times> request list" where
  "get_tokyo_weather get str_of log =
     (case and_then (fetch_json get log tokyo_request) (tokyo_weather_of str_of) of
        Inl e \<Rightarrow> (Inr tokyo_failure, log @ [tokyo_request])
      | Inr s \<Rightarrow> (Inr s, log @ [tokyo_request]))"

subsection \<open>get_forecast\<close>

definition forecast_unable :: pystr where
  "forecast_unable = ascii ''Unable to fetch forecast data for this location.''"

definition forecast_unable_detailed :: pystr where
  "forecast_unable_detailed = ascii ''Unable to fetch detailed forecast.''"

text \<open>The f-string of the loop body; U+00B0 is the degree sign.\<close>

definition format_period :: "(json \<Rightarrow> pystr) \<Rightarrow> json \<Rightarrow> pyerr + pystr" where
  "format_period str_of period =
     and_then (py_getitem period (ascii ''name'')) (\<lambda>name.
     and_then (py_getitem period (ascii ''temperature'')) (\<lambda>temperature.
     and_then (py_getitem period (ascii ''temperatureUnit'')) (\<lambda>unit.
     and_then (py_getitem period (ascii ''windSpeed'')) (\<lambda>speed.
     and_then (py_getitem period (ascii ''windDirection'')) (\<lambda>direction.
     and_then (py_getitem period (ascii ''detailedForecast'')) (\<lambda>detailed.
       Inr (nl @ py_format str_of name @ ascii '':''
          @ nl @ ascii ''Temperature: '' @ py_format str_of temperature @ [176] @ py_format str_of unit
          @ nl @ ascii ''Wind: '' @ py_format str_of speed @ ascii '' '' @ py_format str_of direction
          @ nl @ ascii ''Forecast: '' @ py_format str_of detailed
          @ nl)))))))"

text \<open>\<open>for period in periods[:5]: ... forecasts.append(forecast)\<close>, with the list
  \<open>forecasts\<close> as accumulator.\<close>

fun forecast_loop :: "(json \<Rightarrow> pystr) \<Rightarrow> json list \<Rightarrow> pystr list \<Rightarrow> pyerr + pystr list" where
  "forecast_loop str_of [] forecasts = Inr forecasts"
| "forecast_loop str_of (period # rest) forecasts =
     (case format_period str_of period of
        Inl e \<Rightarrow> Inl e
      | Inr forecast \<Rightarrow> forecast_loop str_of rest (forecasts @ [forecast]))"

text \<open>The part of \<open>get_forecast\<close> after the second fetch, on the value it returned.\<close>

definition forecast_of :: "(json \<Rightarrow> pystr) \<Rightarrow> json \<Rightarrow> pyerr + pystr" where
  "forecast_of str_of forecast_data =
     (if \<not> truthy forecast_data then Inr forecast_unable_detailed
      else and_then (py_getitem forecast_data (ascii ''properties'')) (\<lambda>props.
           and_then (py_getitem props (ascii ''periods'')) (\<lambda>periods.
           and_then (py_slice_to 5 periods) (\<lambda>first5.
           and_then (py_iter first5) (\<lambda>items.
           and_then (forecast_loop str_of items []) (\<lambda>forecasts.
             Inr (join separator forecasts)))))))"

definition points_url :: "(json \<Rightarrow> pystr) \<Rightarrow> pyfloat \<Rightarrow> pyfloat \<Rightarrow> pystr" where
  "points_url str_of latitude longitude =
     NWS_API_BASE @ ascii ''/points/'' @ py_format str_of (JFloat latitude)
       @ ascii '','' @ py_format str_of (JFloat longitude)"

definition get_forecast ::
  "client \<Rightarrow> (json \<Rightarrow> pystr) \<Rightarrow> pyfloat \<Rightarrow> pyfloat \<Rightarrow> request list
     \<Rightarrow> (pyerr + pystr) \<times> request list" where
  "get_forecast get str_of latitude longitude log =
     (case make_nws_request get (JStr (points_url str_of latitude longitude)) log of
        (Inl e, log1) \<Rightarrow> (Inl e, log1)
      | (Inr points_data, log1) \<Rightarrow>
          if \<not> truthy points_data then (Inr forecast_unable, log1)
          else
            (case and_then (py_getitem points_data (ascii ''properties''))
                    (\<lambda>props. py_getitem props (ascii ''forecast'')) of
               Inl e \<Rightarrow> (Inl e, log1)
             | Inr forecast_url \<Rightarrow>
                 (case make_nws_request get forecast_url log1 of
                    (Inl e, log2) \<Rightarrow> (Inl e, log2)
                  | (Inr forecast_data, log2) \<Rightarrow> (forecast_of str_of forecast_data, log2))))"

section \<open>server.py\<close>

definition echo :: "pystr \<Rightarrow> pystr" where
  "echo text = text"

text \<open>\<open>a + b\<close> is the addition of the arguments' own numeric type.\<close>

definition add :: "'a::plus \<Rightarrow> 'a \<Rightarrow> 'a" where
  "add a b = a + b"

section \<open>Notions the properties are stated with\<close>

text \<open>
  Document order. \<open>document_areas\<close> lists the areas of a document in the order in which
  the three nested loops reach them when no loop is left early; it raises where one of
  the \<open>for\<close> statements would.
\<close>

fun series_areas :: "json list \<Rightarrow> pyerr + json list" where
  "series_areas [] = Inr []"
| "series_areas (ts # rest) =
     and_then (py_iter (areas_of ts)) (\<lambda>areas.
     and_then (series_areas rest) (\<lambda>more. Inr (areas @ more)))"

fun reports_areas :: "json list \<Rightarrow> pyerr + json list" where
  "reports_areas [] = Inr []"
| "reports_areas (obj # rest) =
     and_then (py_iter (time_series_of obj)) (\<lambda>entries.
     and_then (series_areas entries) (\<lambda>areas.
     and_then (reports_areas rest) (\<lambda>more. Inr (areas @ more))))"

definition document_areas :: "json \<Rightarrow> pyerr + json list" where
  "document_areas data = (case data of JList objs \<Rightarrow> reports_areas objs | _ \<Rightarrow> Inr [])"

text \<open>
  \<open>weather_heads\<close> lists the first weather entry of every area of the document that
  has a non-empty \<open>weathers\<close> list, whatever its name; a node that cannot be iterated
  contributes nothing.
\<close>

definition area_head :: "json \<Rightarrow> json option" where
  "area_head area = (case area of JDict kvs \<Rightarrow> weathers_head kvs | _ \<Rightarrow> None)"

fun areas_heads :: "json list \<Rightarrow> json list" where
  "areas_heads [] = []"
| "areas_heads (area # rest) =
     (case area_head area of Some w \<Rightarrow> w # areas_heads rest | None \<Rightarrow> areas_heads rest)"

fun series_heads :: "json list \<Rightarrow> json list" where
  "series_heads [] = []"
| "series_heads (ts # rest) =
     (case py_iter (areas_of ts) of Inl e \<Rightarrow> [] | Inr areas \<Rightarrow> areas_heads areas)
       @ series_heads rest"

fun reports_heads :: "json list \<Rightarrow> json list" where
  "reports_heads [] = []"
| "reports_heads (obj # rest) =
     (case py_iter (time_series_of obj) of Inl e \<Rightarrow> [] | Inr entries \<Rightarrow> series_heads entries)
       @ reports_heads rest"

definition weather_heads :: "json \<Rightarrow> json list" where
  "weather_heads data = (case data of JList objs \<Rightarrow> reports_heads objs | _ \<Rightarrow> [])"

text \<open>The condition in the words of the specification of \<open>get_alerts\<close>: a document
  whose \<open>features\<close> key maps to an empty sequence.\<close>

definition features_empty_sequence :: "json \<Rightarrow> bool" where
  "features_empty_sequence data =
     (case data of JDict kvs \<Rightarrow> map_of kvs (ascii ''features'') = Some (JList []) | _ \<Rightarrow> False)"

section \<open>Inputs of the examples\<close>

text \<open>
  The concrete examples need a client and a rendering function. \<open>scripted\<close> answers
  the n-th request of a call with the n-th outcome of a list and raises afterwards.
  \<open>blank_repr\<close> renders every value that is not a string as the empty text; the results
  of the examples do not depend on it.
\<close>

definition scripted :: "http_outcome list \<Rightarrow> client" where
  "scripted outcomes log req =
     (if length log < length outcomes then outcomes ! length log else GetRaises)"

definition blank_repr :: "json \<Rightarrow> pystr" where
  "blank_repr v = []"

definition points_doc :: json where
  "points_doc =
     JDict [(ascii ''properties'',
       JDict [(ascii ''forecast'', JStr (ascii ''https://api.weather.gov/f''))])]"

text \<open>Builders for forecast documents of the shape the traversal expects.\<close>

definition area_named :: "pystr \<Rightarrow> json list \<Rightarrow> json" where
  "area_named name weathers =
     JDict [(ascii ''area'', JDict [(ascii ''name'', JStr name)]),
            (ascii ''weathers'', JList weathers)]"

definition series :: "json list \<Rightarrow> json" where
  "series areas = JDict [(ascii ''areas'', JList areas)]"

definition report :: "json list \<Rightarrow> json" where
  "report entries = JDict [(ascii ''timeSeries'', JList entries)]"

text \<open>The Japanese strings of the examples, as code points: the area name Tokyo-chihou
  and the weather words for sunny, rain and cloudy.\<close>

definition tokyo_chihou :: pystr where
  "tokyo_chihou = [26481, 20140, 22320, 26041]"

definition hare :: pystr where
  "hare = [26228, 12428]"

definition ame :: pystr where
  "ame = [38632]"

definition kumori :: pystr where
  "kumori = [12367, 12418, 12426]"

text \<open>An area without a name and with rain, followed by Tokyo-chihou with sunny.\<close>

definition rain_then_tokyo :: json where
  "rain_then_tokyo =
     JList [report [series
       [JDict [(ascii ''weathers'', JList [JStr ame])],
        area_named tokyo_chihou [JStr hare]]]]"

text \<open>The same two kinds of area further apart: an area without a name and one with
  an empty name, both with rain, in an earlier report and an earlier time-series entry
  than Tokyo-chihou with sunny.\<close>

definition rain_in_earlier_report :: json where
  "rain_in_earlier_report =
     JList [report [series [JDict [(ascii ''weathers'', JList [JStr ame])]]],
            report [series [area_named [] [JStr ame]],
                    series [area_named tokyo_chihou [JStr hare]]]]"

text \<open>An area without a name and with rain, followed by Tokyo-chihou whose first
  weather entry is the empty string.\<close>

definition rain_then_blank_tokyo :: json where
  "rain_then_blank_tokyo =
     JList [report [series
       [JDict [(ascii ''weathers'', JList [JStr ame])],
        area_named tokyo_chihou [JStr []]]]]"

text \<open>An area whose name is \<open>null\<close> and with rain, followed by Tokyo-chihou with
  sunny.\<close>

definition null_name_then_tokyo :: json where
  "null_name_then_tokyo =
     JList [report [series
       [JDict [(ascii ''area'', JDict [(ascii ''name'', JNull)]),
               (ascii ''weathers'', JList [JStr ame])],
        area_named tokyo_chihou [JStr hare]]]]"

text \<open>A document in which the Tokyo-chihou area is followed, at each of the three
  levels, by a node on which the traversal would raise \<open>TypeError\<close> if it got there.\<close>

definition stops_report :: json where
  "stops_report =
     report [series [],
             series [area_named [] [JStr ame],
                     area_named tokyo_chihou [JStr hare],
                     JDict [(ascii ''area'', JDict [(ascii ''name'', JNull)]),
                            (ascii ''weathers'', JList [JStr kumori])]],
             JDict [(ascii ''areas'', JInt 5)]]"

definition stops_doc :: json where
  "stops_doc = JList [JInt 7, stops_report, JDict [(ascii ''timeSeries'', JInt 5)]]"

text \<open>An areas list whose first entry has no \<open>weathers\<close> and whose second entry has
  the list with the single entry cloudy; no area has a preferred name.\<close>

definition cloudy_second :: json where
  "cloudy_second =
     JList [report [series
       [JDict [(ascii ''area'', JDict [(ascii ''name'', JStr (ascii ''Izu''))]),
               (ascii ''pops'', JList [JStr (ascii ''10'')])],
        area_named (ascii ''Izu'') [JStr kumori]]]]"

section \<open>Basic facts\<close>

lemmas example_defs =
  fetch_json_def scripted_def is_success_def area_named_def series_def report_def
  tokyo_chihou_def hare_def ame_def kumori_def
  time_series_of_def areas_of_def preferred_area_def weathers_head_def area_name_of_def
  preferred_names_def preferred_pass_def fallback_pass_def tokyo_weather_of_def py_format_def
  weather_heads_def area_head_def ascii_def

lemma and_then_Inl [simp]: "and_then (Inl e) f = Inl e"
  by (simp add: and_then_def)

lemma and_then_Inr [simp]: "and_then (Inr x) f = f x"
  by (simp add: and_then_def)

lemma make_nws_request_cases:
  "make_nws_request get u log =
     (Inr (case fetch_json get log (nws_request u) of Inl e \<Rightarrow> JNull | Inr v \<Rightarrow> v),
      log @ [nws_request u])"
  by (simp add: make_nws_request_def split: sum.split)

lemma get_alerts_cases:
  "get_alerts get str_of state log =
     (alerts_of str_of (case fetch_json get log (nws_request (JStr (alerts_url state))) of
                          Inl e \<Rightarrow> JNull | Inr v \<Rightarrow> v),
      log @ [nws_request (JStr (alerts_url state))])"
  by (simp add: get_alerts_def make_nws_request_cases)

lemma get_tokyo_weather_cases:
  "get_tokyo_weather get str_of log =
     (Inr (case and_then (fetch_json get log tokyo_request) (tokyo_weather_of str_of) of
             Inl e \<Rightarrow> tokyo_failure | Inr s \<Rightarrow> s),
      log @ [tokyo_request])"
  by (simp add: get_tokyo_weather_def split: sum.split)

section \<open>server.py: echo and add\<close>

text \<open>
  Claim C9. The \<open>add\<close> tool returns \<open>a + b\<close>, the sum of its arguments in their own
  numeric type, and the \<open>echo\<close> tool returns every string unchanged, the empty string
  included.
\<close>

theorem add_echo: "add a b = a + b \<and> echo s = s"
  by (simp add: add_def echo_def)

theorem add_echo_witness:
  "add (2::int) 3 = 5 \<and> echo [] = [] \<and> echo (ascii ''hello mcp'') = ascii ''hello mcp''"
  using add_echo [of "2::int" 3 "[]"] add_echo [of "2::int" 3 "ascii ''hello mcp''"]
  by simp

section \<open>make_nws_request never raises\<close>

text \<open>
  Claim C6. Whatever the GET does, \<open>make_nws_request\<close> returns a value and raises
  nothing: \<open>None\<close> when the GET raises, when the status code is not 2xx, and when the
  body does not parse as JSON; the parsed value on a 2xx response whose body parses.
\<close>

theorem make_nws_request_no_data:
  "(\<exists>v. fst (make_nws_request get u log) = Inr v) \<and>
   (get log (nws_request u) = GetRaises \<longrightarrow> fst (make_nws_request get u log) = Inr JNull) \<and>
   (\<forall>status body. get log (nws_request u) = GetResponse status body \<and> \<not> is_success status
      \<longrightarrow> fst (make_nws_request get u log) = Inr JNull) \<and>
   (\<forall>status. get log (nws_request u) = GetResponse status None
      \<longrightarrow> fst (make_nws_request get u log) = Inr JNull) \<and>
   (\<forall>status v. get log (nws_request u) = GetResponse status (Some v) \<and> is_success status
      \<longrightarrow> fst (make_nws_request get u log) = Inr v)"
  by (simp add: make_nws_request_cases fetch_json_def)

theorem make_nws_request_no_data_witness:
  "fst (make_nws_request (scripted []) (JStr (ascii ''u'')) []) = Inr JNull \<and>
   fst (make_nws_request (scripted [GetResponse 404 (Some (JInt 1))]) (JStr (ascii ''u'')) [])
     = Inr JNull \<and>
   fst (make_nws_request (scripted [GetResponse 200 None]) (JStr (ascii ''u'')) []) = Inr JNull \<and>
   fst (make_nws_request (scripted [GetResponse 200 (Some (JInt 1))]) (JStr (ascii ''u'')) [])
     = Inr (JInt 1)"
  using make_nws_request_no_data [of "scripted []" "JStr (ascii ''u'')" "[]"]
    make_nws_request_no_data
      [of "scripted [GetResponse 404 (Some (JInt 1))]" "JStr (ascii ''u'')" "[]"]
    make_nws_request_no_data [of "scripted [GetResponse 200 None]" "JStr (ascii ''u'')" "[]"]
    make_nws_request_no_data
      [of "scripted [GetResponse 200 (Some (JInt 1))]" "JStr (ascii ''u'')" "[]"]
  by (simp add: scripted_def is_success_def)

section \<open>get_forecast: one message per stage\<close>

lemma forecast_messages_differ: "forecast_unable \<noteq> forecast_unable_detailed"
  by (simp add: forecast_unable_def forecast_unable_detailed_def ascii_def)

text \<open>
  Claim C7. When the points fetch yields no data, \<open>get_forecast\<close> returns the stage-one
  message and the request log holds the points request and nothing else: the second
  fetch is not attempted. When the points fetch yields a document from which the forecast
  URL is read and the fetch of that URL yields no data, the result is the stage-two
  message. The two messages are different.
\<close>

theorem get_forecast_stage_messages:
  "(fst (make_nws_request get (JStr (points_url str_of latitude longitude)) log) = Inr JNull \<longrightarrow>
      get_forecast get str_of latitude longitude log =
        (Inr forecast_unable, log @ [nws_request (JStr (points_url str_of latitude longitude))])) \<and>
   (make_nws_request get (JStr (points_url str_of latitude longitude)) log
        = (Inr points_data, log1) \<and>
    truthy points_data \<and>
    py_getitem points_data (ascii ''properties'') = Inr props \<and>
    py_getitem props (ascii ''forecast'') = Inr forecast_url \<and>
    fst (make_nws_request get forecast_url log1) = Inr JNull \<longrightarrow>
      fst (get_forecast get str_of latitude longitude log) = Inr forecast_unable_detailed) \<and>
   forecast_unable \<noteq> forecast_unable_detailed"
proof (intro conjI impI)
  assume "fst (make_nws_request get (JStr (points_url str_of latitude longitude)) log) = Inr JNull"
  then show "get_forecast get str_of latitude longitude log =
        (Inr forecast_unable, log @ [nws_request (JStr (points_url str_of latitude longitude))])"
    by (simp add: get_forecast_def make_nws_request_cases)
next
  assume h: "make_nws_request get (JStr (points_url str_of latitude longitude)) log
        = (Inr points_data, log1) \<and>
    truthy points_data \<and>
    py_getitem points_data (ascii ''properties'') = Inr props \<and>
    py_getitem props (ascii ''forecast'') = Inr forecast_url \<and>
    fst (make_nws_request get forecast_url log1) = Inr JNull"
  then obtain log2 where "make_nws_request get forecast_url log1 = (Inr JNull, log2)"
    by (cases "make_nws_request get forecast_url log1") simp
  with h show "fst (get_forecast get str_of latitude longitude log) = Inr forecast_unable_detailed"
    by (simp add: get_forecast_def forecast_of_def)
next
  show "forecast_unable \<noteq> forecast_unable_detailed"
    by (rule forecast_messages_differ)
qed

theorem get_forecast_stage_messages_witness:
  "get_forecast (scripted []) blank_repr 0 0 [] =
     (Inr forecast_unable, [nws_request (JStr (points_url blank_repr 0 0))]) \<and>
   fst (get_forecast (scripted [GetResponse 200 (Some points_doc)]) blank_repr 0 0 []) =
     Inr forecast_unable_detailed"
  using get_forecast_stage_messages [of "scripted []" blank_repr 0 0 "[]"]
    get_forecast_stage_messages [of "scripted [GetResponse 200 (Some points_doc)]" blank_repr 0 0 "[]"
      points_doc "[nws_request (JStr (points_url blank_repr 0 0))]"
      "JDict [(ascii ''forecast'', JStr (ascii ''https://api.weather.gov/f''))]"
      "JStr (ascii ''https://api.weather.gov/f'')"]
  by (simp add: make_nws_request_cases fetch_json_def scripted_def is_success_def points_doc_def)


section \<open>get_alerts: the two literal messages\<close>

lemma format_alert_starts_nl:
  "format_alert str_of feature = Inr s \<Longrightarrow> \<exists>t. s = 10 # t"
  by (auto simp: format_alert_def and_then_def nl_def split: sum.splits)

lemma map_result_all:
  "map_result f xs = Inr ys \<Longrightarrow> length ys = length xs \<and> (\<forall>y\<in>set ys. \<exists>x. f x = Inr y)"
  by (induction xs arbitrary: ys) (auto split: sum.splits)

lemma join_Cons_nonempty: "join sep ((c # t) # rest) = c # tl (join sep ((c # t) # rest))"
  by (cases rest) auto

lemma truthy_iter_nonempty: "truthy v \<Longrightarrow> py_iter v = Inr items \<Longrightarrow> items \<noteq> []"
  by (cases v) auto

text \<open>When the alerts are formatted, the text begins with the newline of the first
  block, so it is neither of the two literal messages.\<close>

lemma alerts_joined_starts_nl:
  assumes "truthy features"
    and "and_then (py_iter features) (\<lambda>items.
           and_then (map_result (format_alert str_of) items) (\<lambda>alerts.
             Inr (join separator alerts))) = Inr s"
  shows "\<exists>t. s = 10 # t"
proof -
  from assms(2) obtain items alerts where it: "py_iter features = Inr items"
    and mr: "map_result (format_alert str_of) items = Inr alerts"
    and s: "s = join separator alerts"
    by (auto simp: and_then_def split: sum.splits)
  from truthy_iter_nonempty [OF assms(1) it] map_result_all [OF mr]
  obtain a rest where al: "alerts = a # rest" and "\<exists>x. format_alert str_of x = Inr a"
    by (cases alerts) auto
  then obtain t where "a = 10 # t"
    using format_alert_starts_nl by blast
  with al s show ?thesis
    using join_Cons_nonempty [of separator 10 t rest] by blast
qed

lemma alerts_none_head: "alerts_none = 78 # tl alerts_none"
  by (simp add: alerts_none_def ascii_def)

lemma alerts_unable_head: "alerts_unable = 85 # tl alerts_unable"
  by (simp add: alerts_unable_def ascii_def)

lemma alerts_messages_differ: "alerts_unable \<noteq> alerts_none"
  by (simp add: alerts_unable_def alerts_none_def ascii_def)

lemma alerts_joined_not_none:
  assumes "truthy features"
  shows "and_then (py_iter features) (\<lambda>items.
           and_then (map_result (format_alert str_of) items) (\<lambda>alerts.
             Inr (join separator alerts))) \<noteq> Inr alerts_none"
proof
  assume "and_then (py_iter features) (\<lambda>items.
           and_then (map_result (format_alert str_of) items) (\<lambda>alerts.
             Inr (join separator alerts))) = Inr alerts_none"
  from alerts_joined_starts_nl [OF assms this] obtain t where "alerts_none = 10 # t" ..
  with alerts_none_head have "(78::nat) # tl alerts_none = 10 # t" by simp
  then show False by simp
qed

lemma alerts_joined_not_unable:
  assumes "truthy features"
  shows "and_then (py_iter features) (\<lambda>items.
           and_then (map_result (format_alert str_of) items) (\<lambda>alerts.
             Inr (join separator alerts))) \<noteq> Inr alerts_unable"
proof
  assume "and_then (py_iter features) (\<lambda>items.
           and_then (map_result (format_alert str_of) items) (\<lambda>alerts.
             Inr (join separator alerts))) = Inr alerts_unable"
  from alerts_joined_starts_nl [OF assms this] obtain t where "alerts_unable = 10 # t" ..
  with alerts_unable_head have "(85::nat) # tl alerts_unable = 10 # t" by simp
  then show False by simp
qed

lemma alerts_of_none_iff:
  "alerts_of str_of data = Inr alerts_none \<longleftrightarrow>
     (\<exists>kvs v. data = JDict kvs \<and> map_of kvs (ascii ''features'') = Some v \<and> \<not> truthy v)"
proof (cases data)
  case (JDict kvs)
  show ?thesis
  proof (cases "map_of kvs (ascii ''features'')")
    case None
    then have "ascii ''features'' \<notin> fst ` set kvs"
      by (simp add: map_of_eq_None_iff)
    with None JDict show ?thesis
      using alerts_messages_differ by (simp add: alerts_of_def)
  next
    case (Some v)
    then have k: "ascii ''features'' \<in> fst ` set kvs" and ne: "kvs \<noteq> []"
      by (force dest: map_of_SomeD)+
    show ?thesis
    proof (cases "truthy v")
      case True
      with Some JDict k ne alerts_joined_not_none [OF True, of str_of] show ?thesis
        by (simp add: alerts_of_def)
    next
      case False
      with Some JDict k ne show ?thesis
        by (simp add: alerts_of_def)
    qed
  qed
qed (auto simp: alerts_of_def alerts_messages_differ)

lemma alerts_of_unable_dict_iff:
  "alerts_of str_of (JDict kvs) = Inr alerts_unable \<longleftrightarrow> map_of kvs (ascii ''features'') = None"
proof (cases "map_of kvs (ascii ''features'')")
  case None
  then have "ascii ''features'' \<notin> fst ` set kvs"
    by (simp add: map_of_eq_None_iff)
  with None show ?thesis
    by (simp add: alerts_of_def)
next
  case (Some v)
  then have k: "ascii ''features'' \<in> fst ` set kvs" and ne: "kvs \<noteq> []"
    by (force dest: map_of_SomeD)+
  show ?thesis
  proof (cases "truthy v")
    case True
    with Some k ne alerts_joined_not_unable [OF True, of str_of] show ?thesis
      by (simp add: alerts_of_def)
  next
    case False
    with Some k ne show ?thesis
      using alerts_messages_differ by (simp add: alerts_of_def)
  qed
qed

text \<open>
  Claim C8, as the code has it. Let \<open>data\<close> be what the fetch yields. \<open>get_alerts\<close>
  returns the no-active-alerts message exactly when \<open>data\<close> is a map whose \<open>features\<close>
  key maps to a value that tests false (an empty sequence, and also \<open>null\<close>, \<open>false\<close>,
  zero, an empty string or an empty map). When the fetch yields no data or a map, it
  returns the unable-to-fetch message exactly when there is no data or the map has no
  \<open>features\<close> key.
\<close>

theorem get_alerts_messages:
  assumes "fst (make_nws_request get (JStr (alerts_url state)) log) = Inr data"
  shows "(fst (get_alerts get str_of state log) = Inr alerts_none \<longleftrightarrow>
            (\<exists>kvs v. data = JDict kvs \<and> map_of kvs (ascii ''features'') = Some v \<and> \<not> truthy v)) \<and>
         (data = JNull \<or> (\<exists>kvs. data = JDict kvs) \<longrightarrow>
            (fst (get_alerts get str_of state log) = Inr alerts_unable \<longleftrightarrow>
               data = JNull \<or> (\<exists>kvs. data = JDict kvs \<and> map_of kvs (ascii ''features'') = None)))"
proof -
  from assms have r: "fst (get_alerts get str_of state log) = alerts_of str_of data"
    by (simp add: get_alerts_cases make_nws_request_cases)
  have "alerts_of str_of JNull = Inr alerts_unable"
    by (simp add: alerts_of_def)
  then show ?thesis
    unfolding r using alerts_of_none_iff [of str_of data] alerts_of_unable_dict_iff [of str_of]
    by auto
qed

theorem get_alerts_messages_witness:
  "fst (get_alerts (scripted [GetResponse 200 (Some (JDict [(ascii ''features'', JList [])]))])
         blank_repr (ascii ''ZZ'') []) = Inr alerts_none \<and>
   fst (get_alerts (scripted []) blank_repr (ascii ''ZZ'') []) = Inr alerts_unable \<and>
   fst (get_alerts (scripted [GetResponse 200 (Some (JDict [(ascii ''title'', JStr (ascii ''x''))]))])
         blank_repr (ascii ''ZZ'') []) = Inr alerts_unable"
  using get_alerts_messages
      [of "scripted [GetResponse 200 (Some (JDict [(ascii ''features'', JList [])]))]"
          "ascii ''ZZ''" "[]" "JDict [(ascii ''features'', JList [])]" blank_repr]
    get_alerts_messages [of "scripted []" "ascii ''ZZ''" "[]" JNull blank_repr]
    get_alerts_messages
      [of "scripted [GetResponse 200 (Some (JDict [(ascii ''title'', JStr (ascii ''x''))]))]"
          "ascii ''ZZ''" "[]" "JDict [(ascii ''title'', JStr (ascii ''x''))]" blank_repr]
  by (simp add: make_nws_request_cases fetch_json_def scripted_def is_success_def ascii_def)

text \<open>
  The no-active-alerts message is not returned only for an empty sequence: a document
  whose \<open>features\<close> key maps to \<open>null\<close> gets it too.
\<close>

theorem get_alerts_null_features:
  "fst (get_alerts (scripted [GetResponse 200 (Some (JDict [(ascii ''features'', JNull)]))])
         blank_repr (ascii ''ZZ'') []) = Inr alerts_none \<and>
   \<not> features_empty_sequence (JDict [(ascii ''features'', JNull)])"
  by (simp add: get_alerts_cases fetch_json_def scripted_def is_success_def alerts_of_def
      features_empty_sequence_def)

section \<open>Missing fields and failures of a call\<close>

text \<open>
  Claim C1, as the code has it. \<open>get_tokyo_weather\<close> returns a string for every fetch
  result, so no missing or malformed field of the document fails the call. In
  \<open>format_alert\<close>, on a feature whose \<open>properties\<close> is a map, each of the five fields is
  read with its sentinel default (\<open>Unknown\<close>, \<open>No description available\<close>,
  \<open>No specific instructions provided\<close>) and the call returns the filled template.
  The lookup of \<open>properties\<close> itself is not guarded.
\<close>

theorem sentinel_defaults:
  "(\<exists>s. fst (get_tokyo_weather get str_of log) = Inr s) \<and>
   (map_of feature (ascii ''properties'') = Some (JDict props) \<longrightarrow>
      format_alert str_of (JDict feature) =
        Inr (nl @ ascii ''Event: ''
               @ py_format str_of (case map_of props (ascii ''event'') of
                   Some v \<Rightarrow> v | None \<Rightarrow> JStr (ascii ''Unknown''))
           @ nl @ ascii ''Area: ''
               @ py_format str_of (case map_of props (ascii ''areaDesc'') of
                   Some v \<Rightarrow> v | None \<Rightarrow> JStr (ascii ''Unknown''))
           @ nl @ ascii ''Severity: ''
               @ py_format str_of (case map_of props (ascii ''severity'') of
                   Some v \<Rightarrow> v | None \<Rightarrow> JStr (ascii ''Unknown''))
           @ nl @ ascii ''Description: ''
               @ py_format str_of (case map_of props (ascii ''description'') of
                   Some v \<Rightarrow> v | None \<Rightarrow> JStr (ascii ''No description available''))
           @ nl @ ascii ''Instructions: ''
               @ py_format str_of (case map_of props (ascii ''instruction'') of
                   Some v \<Rightarrow> v | None \<Rightarrow> JStr (ascii ''No specific instructions provided''))
           @ nl))"
  by (simp add: get_tokyo_weather_cases format_alert_def)

theorem sentinel_defaults_witness:
  "fst (get_tokyo_weather
          (scripted [GetResponse 200 (Some (JList [JDict [(ascii ''timeSeries'', JInt 5)]]))])
          blank_repr []) = Inr tokyo_failure \<and>
   format_alert blank_repr
       (JDict [(ascii ''properties'', JDict [(ascii ''event'', JStr (ascii ''Flood''))])]) =
     Inr (nl @ ascii ''Event: Flood''
        @ nl @ ascii ''Area: Unknown''
        @ nl @ ascii ''Severity: Unknown''
        @ nl @ ascii ''Description: No description available''
        @ nl @ ascii ''Instructions: No specific instructions provided''
        @ nl)"
  using sentinel_defaults
      [of "scripted [GetResponse 200 (Some (JList [JDict [(ascii ''timeSeries'', JInt 5)]]))]"
          blank_repr "[]"
          "[(ascii ''properties'', JDict [(ascii ''event'', JStr (ascii ''Flood''))])]"
          "[(ascii ''event'', JStr (ascii ''Flood''))]"]
  by (simp add: get_tokyo_weather_cases fetch_json_def scripted_def is_success_def
      tokyo_weather_of_def preferred_pass_def time_series_of_def py_format_def ascii_def)

text \<open>
  A feature without \<open>properties\<close> makes \<open>format_alert\<close> raise \<open>KeyError\<close>, and
  \<open>get_alerts\<close> lets it through.
\<close>

theorem format_alert_missing_properties:
  "format_alert blank_repr (JDict [(ascii ''id'', JStr (ascii ''a1''))]) = Inl KeyError \<and>
   fst (get_alerts
          (scripted [GetResponse 200 (Some (JDict [(ascii ''features'',
             JList [JDict [(ascii ''id'', JStr (ascii ''a1''))]])]))])
          blank_repr (ascii ''CA'') []) = Inl KeyError"
  by (simp add: get_alerts_cases fetch_json_def scripted_def is_success_def alerts_of_def
      format_alert_def ascii_def)

text \<open>
  Claim C4, as the code has it. A fetch that fails (the GET raises, the status is not
  2xx, the body does not parse) is absorbed by each handler and rendered as its
  unable-to-fetch message: the alerts fetch of \<open>get_alerts\<close>, the points fetch and the
  forecast fetch of \<open>get_forecast\<close>, and the fetch of \<open>get_tokyo_weather\<close>.
  \<open>get_tokyo_weather\<close> also absorbs every exception raised while the fetched document
  is processed. \<open>get_alerts\<close> and \<open>get_forecast\<close> have no handler around the
  processing of a fetched document.
\<close>

theorem fetch_failures_absorbed:
  "(fetch_json get log (nws_request (JStr (alerts_url state))) = Inl e \<longrightarrow>
      fst (get_alerts get str_of state log) = Inr alerts_unable) \<and>
   (fetch_json get log (nws_request (JStr (points_url str_of latitude longitude))) = Inl e \<longrightarrow>
      fst (get_forecast get str_of latitude longitude log) = Inr forecast_unable) \<and>
   (fetch_json get log (nws_request (JStr (points_url str_of latitude longitude)))
        = Inr points_data \<and>
    truthy points_data \<and>
    py_getitem points_data (ascii ''properties'') = Inr props \<and>
    py_getitem props (ascii ''forecast'') = Inr forecast_url \<and>
    fetch_json get (log @ [nws_request (JStr (points_url str_of latitude longitude))])
        (nws_request forecast_url) = Inl e \<longrightarrow>
      fst (get_forecast get str_of latitude longitude log) = Inr forecast_unable_detailed) \<and>
   (fetch_json get log tokyo_request = Inl e \<longrightarrow>
      fst (get_tokyo_weather get str_of log) = Inr tokyo_failure) \<and>
   (fetch_json get log tokyo_request = Inr data \<and> tokyo_weather_of str_of data = Inl e \<longrightarrow>
      fst (get_tokyo_weather get str_of log) = Inr tokyo_failure)"
  by (simp add: get_alerts_cases alerts_of_def get_forecast_def make_nws_request_cases
      forecast_of_def get_tokyo_weather_cases)

theorem fetch_failures_absorbed_witness:
  "fst (get_alerts (scripted [GetResponse 503 None]) blank_repr (ascii ''CA'') [])
     = Inr alerts_unable \<and>
   fst (get_forecast (scripted [GetResponse 503 None]) blank_repr 0 0 []) = Inr forecast_unable \<and>
   fst (get_forecast (scripted [GetResponse 200 (Some points_doc), GetResponse 503 None])
          blank_repr 0 0 []) = Inr forecast_unable_detailed \<and>
   fst (get_tokyo_weather (scripted [GetResponse 503 None]) blank_repr []) = Inr tokyo_failure \<and>
   tokyo_weather_of blank_repr (JList [JDict [(ascii ''timeSeries'', JInt 5)]]) = Inl TypeError \<and>
   fst (get_tokyo_weather
          (scripted [GetResponse 200 (Some (JList [JDict [(ascii ''timeSeries'', JInt 5)]]))])
          blank_repr []) = Inr tokyo_failure"
  using fetch_failures_absorbed
      [where get = "scripted [GetResponse 503 None]" and log = "[]" and state = "ascii ''CA''"
         and e = HTTPStatusError and str_of = blank_repr and latitude = 0 and longitude = 0
         and points_data = JNull and props = JNull and forecast_url = JNull and data = JNull]
    fetch_failures_absorbed
      [where get = "scripted [GetResponse 200 (Some points_doc), GetResponse 503 None]"
         and log = "[]" and state = "ascii ''CA''"
         and e = HTTPStatusError and str_of = blank_repr and latitude = 0 and longitude = 0
         and points_data = points_doc
         and props = "JDict [(ascii ''forecast'', JStr (ascii ''https://api.weather.gov/f''))]"
         and forecast_url = "JStr (ascii ''https://api.weather.gov/f'')" and data = JNull]
    fetch_failures_absorbed
      [where get = "scripted [GetResponse 200 (Some (JList [JDict [(ascii ''timeSeries'', JInt 5)]]))]"
         and log = "[]" and state = "ascii ''CA''"
         and e = TypeError and str_of = blank_repr and latitude = 0 and longitude = 0
         and points_data = JNull and props = JNull and forecast_url = JNull
         and data = "JList [JDict [(ascii ''timeSeries'', JInt 5)]]"]
  by (simp add: fetch_json_def scripted_def is_success_def points_doc_def
      tokyo_weather_of_def preferred_pass_def time_series_of_def ascii_def)

text \<open>
  A points document without \<open>properties\<close> makes \<open>get_forecast\<close> raise \<open>KeyError\<close>
  to its caller.
\<close>

theorem get_forecast_missing_properties:
  "fst (get_forecast
          (scripted [GetResponse 200 (Some (JDict [(ascii ''type'', JStr (ascii ''Feature''))]))])
          blank_repr 0 0 []) = Inl KeyError"
  by (simp add: get_forecast_def make_nws_request_cases fetch_json_def scripted_def
      is_success_def ascii_def)

section \<open>get_tokyo_weather: the preferred pass\<close>

lemma any_in_str: "any_in ns (JStr s) = Inr (\<exists>n\<in>set ns. str_contains s n)"
  by (induction ns) (auto split: bool.splits)

text \<open>An area with a non-empty \<open>weathers\<close> list whose name is a string that contains a
  preferred name is a match of the preferred pass.\<close>

lemma preferred_area_match:
  assumes "weathers_head kvs = Some w" and "area_name_of kvs = JStr name"
    and "\<exists>n\<in>set preferred_names. str_contains name n"
  shows "preferred_area (JDict kvs) = Inr (Some w)"
  using assms by (simp add: preferred_area_def any_in_str)

text \<open>An area whose name is missing or empty is no match, with or without weathers.\<close>

lemma unnamed_area_skipped:
  assumes "area_name_of kvs = JStr []"
  shows "preferred_area (JDict kvs) = Inr None"
  using assms
  by (simp add: preferred_area_def any_in_str preferred_names_def ascii_def split: option.split)

lemma preferred_areas_skip:
  "\<forall>a\<in>set areas. preferred_area a = Inr None \<Longrightarrow> preferred_areas tw areas = Inr tw"
  by (induction areas) auto

lemma preferred_areas_first_match:
  "\<forall>a\<in>set before. preferred_area a = Inr None \<Longrightarrow> preferred_area area = Inr (Some w) \<Longrightarrow>
   preferred_areas tw (before @ area # after) = Inr w"
  by (induction before) auto

text \<open>The two outer loops on a list cut in two: the second part is run only when the
  first part leaves \<open>today_weather\<close> false.\<close>

lemma preferred_series_append:
  "\<not> truthy tw \<Longrightarrow>
   preferred_series tw (xs @ ys) =
     (case preferred_series tw xs of
        Inl e \<Rightarrow> Inl e
      | Inr tw' \<Rightarrow> if truthy tw' then Inr tw' else preferred_series tw' ys)"
  by (induction xs arbitrary: tw) (auto split: sum.splits)

lemma preferred_reports_append:
  "\<not> truthy tw \<Longrightarrow>
   preferred_reports tw (xs @ ys) =
     (case preferred_reports tw xs of
        Inl e \<Rightarrow> Inl e
      | Inr tw' \<Rightarrow> if truthy tw' then Inr tw' else preferred_reports tw' ys)"
  by (induction xs arbitrary: tw) (auto split: sum.splits)

lemma preferred_series_skip:
  "series_areas tss = Inr areas \<Longrightarrow> \<forall>a\<in>set areas. preferred_area a = Inr None \<Longrightarrow>
   \<not> truthy tw \<Longrightarrow> preferred_series tw tss = Inr tw"
proof (induction tss arbitrary: areas)
  case Nil
  then show ?case by simp
next
  case (Cons ts rest)
  from Cons.prems(1) obtain as more where it: "py_iter (areas_of ts) = Inr as"
    and more: "series_areas rest = Inr more" and ar: "areas = as @ more"
    by (auto simp: and_then_def split: sum.splits)
  from Cons.prems(2) ar have "preferred_areas tw as = Inr tw"
    by (simp add: preferred_areas_skip)
  moreover from Cons.IH [OF more] Cons.prems(2,3) ar have "preferred_series tw rest = Inr tw"
    by simp
  ultimately show ?case
    using it Cons.prems(3) by simp
qed

lemma preferred_series_first_match:
  "series_areas tss = Inr (before @ area # after) \<Longrightarrow>
   \<forall>a\<in>set before. preferred_area a = Inr None \<Longrightarrow> preferred_area area = Inr (Some w) \<Longrightarrow>
   truthy w \<Longrightarrow> \<not> truthy tw \<Longrightarrow> preferred_series tw tss = Inr w"
proof (induction tss arbitrary: before)
  case Nil
  then show ?case by simp
next
  case (Cons ts rest)
  from Cons.prems(1) obtain as more where it: "py_iter (areas_of ts) = Inr as"
    and more: "series_areas rest = Inr more" and ar: "as @ more = before @ area # after"
    by (auto simp: and_then_def split: sum.splits)
  from ar consider (here) us where "as = before @ area # us"
    | (later) us where "before = as @ us" "more = us @ area # after"
    by (auto simp: append_eq_append_conv2 append_eq_Cons_conv)
  then show ?case
  proof cases
    case here
    with Cons.prems(2,3) have "preferred_areas tw as = Inr w"
      by (simp add: preferred_areas_first_match)
    with it Cons.prems(4) show ?thesis by simp
  next
    case later
    with Cons.prems(2) have "preferred_areas tw as = Inr tw"
      by (simp add: preferred_areas_skip)
    moreover from Cons.IH [of us] later more Cons.prems have "preferred_series tw rest = Inr w"
      by simp
    ultimately show ?thesis
      using it Cons.prems(5) by simp
  qed
qed

lemma preferred_reports_first_match:
  "reports_areas objs = Inr (before @ area # after) \<Longrightarrow>
   \<forall>a\<in>set before. preferred_area a = Inr None \<Longrightarrow> preferred_area area = Inr (Some w) \<Longrightarrow>
   truthy w \<Longrightarrow> \<not> truthy tw \<Longrightarrow> preferred_reports tw objs = Inr w"
proof (induction objs arbitrary: before)
  case Nil
  then show ?case by simp
next
  case (Cons obj rest)
  from Cons.prems(1) obtain entries as more
    where it: "py_iter (time_series_of obj) = Inr entries"
      and as: "series_areas entries = Inr as"
      and more: "reports_areas rest = Inr more" and ar: "as @ more = before @ area # after"
    by (auto simp: and_then_def split: sum.splits)
  from ar consider (here) us where "as = before @ area # us"
    | (later) us where "before = as @ us" "more = us @ area # after"
    by (auto simp: append_eq_append_conv2 append_eq_Cons_conv)
  then show ?case
  proof cases
    case here
    with as Cons.prems have "preferred_series tw entries = Inr w"
      by (simp add: preferred_series_first_match)
    with it Cons.prems(4) show ?thesis by simp
  next
    case later
    with as Cons.prems(2,5) have "preferred_series tw entries = Inr tw"
      by (simp add: preferred_series_skip)
    moreover from Cons.IH [of us] later more Cons.prems have "preferred_reports tw rest = Inr w"
      by simp
    ultimately show ?thesis
      using it Cons.prems(5) by simp
  qed
qed

text \<open>
  Claim C5, as the code has it. Take a document that the loops traverse without raising
  and whose areas, in document order, are \<open>before\<close>, then an area with a name containing
  a preferred name and a non-empty \<open>weathers\<close> list, then \<open>after\<close>. Suppose every area
  of \<open>before\<close> is passed over by the preferred pass without raising: it is no map, or
  has no non-empty \<open>weathers\<close> list, or its name is missing, empty or another string
  without a preferred name (a name that is \<open>null\<close> or a number raises instead). If the
  first weather entry \<open>w\<close> of the named area tests true (as the entry sunny does), then
  \<open>get_tokyo_weather\<close> reports \<open>w\<close>, whatever weathers the areas of \<open>before\<close> have:
  a name match with a true first entry wins over document order, and it is the first
  match in document order that wins.
\<close>

theorem preferred_match_wins:
  assumes "fetch_json get log tokyo_request = Inr data"
    and "document_areas data = Inr (before @ JDict kvs # after)"
    and "\<forall>a\<in>set before. preferred_area a = Inr None"
    and "weathers_head kvs = Some w" and "truthy w"
    and "area_name_of kvs = JStr name"
    and "\<exists>n\<in>set preferred_names. str_contains name n"
  shows "fst (get_tokyo_weather get str_of log) = Inr (tokyo_prefix @ py_format str_of w)"
proof -
  from assms(2) obtain objs where d: "data = JList objs"
    and ra: "reports_areas objs = Inr (before @ JDict kvs # after)"
    by (cases data) (auto simp: document_areas_def)
  have "preferred_area (JDict kvs) = Inr (Some w)"
    using assms(4,6,7) by (rule preferred_area_match)
  with ra assms(3,5) have "preferred_reports JNull objs = Inr w"
    by (simp add: preferred_reports_first_match)
  with d assms(1,5) show ?thesis
    by (simp add: get_tokyo_weather_cases tokyo_weather_of_def preferred_pass_def fallback_pass_def)
qed

theorem preferred_match_wins_witness:
  "fst (get_tokyo_weather (scripted [GetResponse 200 (Some rain_then_tokyo)]) blank_repr [])
     = Inr (tokyo_prefix @ hare) \<and>
   fst (get_tokyo_weather (scripted [GetResponse 200 (Some rain_in_earlier_report)]) blank_repr [])
     = Inr (tokyo_prefix @ hare)"
  using preferred_match_wins
      [where get = "scripted [GetResponse 200 (Some rain_then_tokyo)]" and log = "[]"
         and data = rain_then_tokyo
         and before = "[JDict [(ascii ''weathers'', JList [JStr ame])]]"
         and kvs = "[(ascii ''area'', JDict [(ascii ''name'', JStr tokyo_chihou)]),
                     (ascii ''weathers'', JList [JStr hare])]"
         and after = "[]" and w = "JStr hare" and name = tokyo_chihou and str_of = blank_repr]
    preferred_match_wins
      [where get = "scripted [GetResponse 200 (Some rain_in_earlier_report)]" and log = "[]"
         and data = rain_in_earlier_report
         and before = "[JDict [(ascii ''weathers'', JList [JStr ame])], area_named [] [JStr ame]]"
         and kvs = "[(ascii ''area'', JDict [(ascii ''name'', JStr tokyo_chihou)]),
                     (ascii ''weathers'', JList [JStr hare])]"
         and after = "[]" and w = "JStr hare" and name = tokyo_chihou and str_of = blank_repr]
  by (simp add: rain_then_tokyo_def rain_in_earlier_report_def document_areas_def example_defs)

text \<open>
  A name match does not always win. When the first weather entry of the Tokyo-chihou
  area is the empty string, the rain of the earlier area without a name is reported.
  When the earlier area has the name \<open>null\<close>, the name test raises and the failure
  sentinel is returned although Tokyo-chihou has the entry sunny.
\<close>

theorem preferred_match_loses:
  "fst (get_tokyo_weather (scripted [GetResponse 200 (Some rain_then_blank_tokyo)]) blank_repr [])
     = Inr (tokyo_prefix @ ame) \<and>
   fst (get_tokyo_weather (scripted [GetResponse 200 (Some null_name_then_tokyo)]) blank_repr [])
     = Inr tokyo_failure"
  by (simp add: get_tokyo_weather_cases rain_then_blank_tokyo_def null_name_then_tokyo_def
      example_defs)

text \<open>
  Claim C3, as the code has it. Suppose the preferred pass reaches an area whose name
  contains a preferred name and whose \<open>weathers\<close> list is non-empty, with first entry
  \<open>w\<close>: the reports before its report, the time-series entries before its entry and the
  areas before it left \<open>today_weather\<close> false. Then the areas loop stops with \<open>w\<close>,
  whatever follows in the areas list. If \<open>w\<close> tests true, the time-series loop and the
  reports loop stop too and \<open>w\<close> is the result of the pass, whatever follows in the
  document. If \<open>w\<close> tests false, the pass goes on with the next time-series entry.
\<close>

theorem preferred_pass_stops:
  assumes "preferred_reports JNull rs_before = Inr tw_reports" and "\<not> truthy tw_reports"
    and "py_iter (time_series_of obj) = Inr (ts_before @ ts # ts_after)"
    and "preferred_series tw_reports ts_before = Inr tw_series" and "\<not> truthy tw_series"
    and "py_iter (areas_of ts) = Inr (as_before @ JDict kvs # as_after)"
    and "\<forall>a\<in>set as_before. preferred_area a = Inr None"
    and "weathers_head kvs = Some w"
    and "area_name_of kvs = JStr name"
    and "\<exists>n\<in>set preferred_names. str_contains name n"
  shows "preferred_areas tw_series (as_before @ JDict kvs # as_after) = Inr w \<and>
         (truthy w \<longrightarrow> preferred_pass (JList (rs_before @ obj # rs_after)) = Inr w) \<and>
         (\<not> truthy w \<longrightarrow>
            preferred_pass (JList (rs_before @ obj # rs_after)) =
              (case preferred_series w ts_after of
                 Inl e \<Rightarrow> Inl e
               | Inr tw' \<Rightarrow> if truthy tw' then Inr tw' else preferred_reports tw' rs_after))"
proof -
  have m: "preferred_area (JDict kvs) = Inr (Some w)"
    using assms(8-10) by (rule preferred_area_match)
  with assms(7) have a: "preferred_areas tw_series (as_before @ JDict kvs # as_after) = Inr w"
    by (simp add: preferred_areas_first_match)
  have s: "preferred_series tw_reports (ts_before @ ts # ts_after) =
             (if truthy w then Inr w else preferred_series w ts_after)"
    using assms(2,4,5,6) a by (simp add: preferred_series_append)
  have "preferred_reports JNull (rs_before @ obj # rs_after) =
          (case (if truthy w then Inr w else preferred_series w ts_after) of
             Inl e \<Rightarrow> Inl e
           | Inr tw' \<Rightarrow> if truthy tw' then Inr tw' else preferred_reports tw' rs_after)"
    using assms(1,2,3) s by (simp add: preferred_reports_append)
  with a show ?thesis
    by (simp add: preferred_pass_def)
qed

theorem preferred_pass_stops_witness:
  "preferred_pass stops_doc = Inr (JStr hare)"
  using preferred_pass_stops
      [where rs_before = "[JInt 7]" and tw_reports = JNull and obj = stops_report
         and ts_before = "[series []]"
         and ts = "series [area_named [] [JStr ame],
                           area_named tokyo_chihou [JStr hare],
                           JDict [(ascii ''area'', JDict [(ascii ''name'', JNull)]),
                                  (ascii ''weathers'', JList [JStr kumori])]]"
         and ts_after = "[JDict [(ascii ''areas'', JInt 5)]]"
         and tw_series = JNull
         and as_before = "[area_named [] [JStr ame]]"
         and kvs = "[(ascii ''area'', JDict [(ascii ''name'', JStr tokyo_chihou)]),
                     (ascii ''weathers'', JList [JStr hare])]"
         and as_after = "[JDict [(ascii ''area'', JDict [(ascii ''name'', JNull)]),
                                 (ascii ''weathers'', JList [JStr kumori])]]"
         and w = "JStr hare" and name = tokyo_chihou
         and rs_after = "[JDict [(ascii ''timeSeries'', JInt 5)]]"]
  by (simp add: stops_doc_def stops_report_def example_defs)

text \<open>
  The loops do not stop at every match. The Tokyo-chihou area below has the empty
  string as first weather entry; alone it makes the pass end with the empty string, but
  with a second time-series entry after it the pass goes on and takes that entry's
  weather, and with a malformed entry after it the pass raises there.
\<close>

theorem preferred_pass_continues_after_falsy:
  "preferred_area (area_named tokyo_chihou [JStr []]) = Inr (Some (JStr [])) \<and>
   preferred_pass (JList [report [series [area_named tokyo_chihou [JStr []]]]]) = Inr (JStr []) \<and>
   preferred_pass (JList [report [series [area_named tokyo_chihou [JStr []]],
                                  series [area_named tokyo_chihou [JStr hare]]]])
     = Inr (JStr hare) \<and>
   preferred_pass (JList [report [series [area_named tokyo_chihou [JStr []]],
                                  JDict [(ascii ''areas'', JInt 5)]]]) = Inl TypeError"
  by (simp add: example_defs)

section \<open>get_tokyo_weather: what is reported\<close>

lemma preferred_area_head: "preferred_area a = Inr (Some w) \<Longrightarrow> area_head a = Some w"
  by (cases a)
    (auto simp: preferred_area_def area_head_def split: option.splits sum.splits bool.splits)

lemma preferred_areas_heads:
  "preferred_areas tw areas = Inr tw' \<Longrightarrow> tw' = tw \<or> tw' \<in> set (areas_heads areas)"
proof (induction areas)
  case Nil
  then show ?case by simp
next
  case (Cons a rest)
  show ?case
  proof (cases "preferred_area a")
    case (Inl e)
    with Cons.prems show ?thesis by simp
  next
    case (Inr r)
    show ?thesis
    proof (cases r)
      case None
      with Inr Cons show ?thesis
        by (auto split: option.splits)
    next
      case (Some w)
      with Inr Cons.prems preferred_area_head [of a w] show ?thesis
        by simp
    qed
  qed
qed

lemma fallback_areas_heads:
  "fallback_areas tw areas = tw \<or> fallback_areas tw areas \<in> set (areas_heads areas)"
  by (induction areas) (auto simp: area_head_def split: json.splits option.splits)

lemma preferred_series_heads:
  "preferred_series tw tss = Inr tw' \<Longrightarrow> tw' = tw \<or> tw' \<in> set (series_heads tss)"
proof (induction tss arbitrary: tw)
  case Nil
  then show ?case by simp
next
  case (Cons ts rest)
  from Cons.prems obtain areas tw1 where it: "py_iter (areas_of ts) = Inr areas"
    and a: "preferred_areas tw areas = Inr tw1"
    and r: "tw' = tw1 \<or> preferred_series tw1 rest = Inr tw'"
    by (auto split: sum.splits if_splits)
  from preferred_areas_heads [OF a] have "tw1 = tw \<or> tw1 \<in> set (areas_heads areas)" .
  moreover from r Cons.IH [of tw1] have "tw' = tw1 \<or> tw' \<in> set (series_heads rest)"
    by blast
  ultimately show ?case
    using it by auto
qed

lemma fallback_series_heads:
  "fallback_series tw tss = Inr tw' \<Longrightarrow> tw' = tw \<or> tw' \<in> set (series_heads tss)"
proof (induction tss arbitrary: tw)
  case Nil
  then show ?case by simp
next
  case (Cons ts rest)
  from Cons.prems obtain areas where it: "py_iter (areas_of ts) = Inr areas"
    and r: "tw' = fallback_areas tw areas
            \<or> fallback_series (fallback_areas tw areas) rest = Inr tw'"
    by (auto simp: Let_def split: sum.splits if_splits)
  from r Cons.IH [of "fallback_areas tw areas"]
  have "tw' = fallback_areas tw areas \<or> tw' \<in> set (series_heads rest)"
    by blast
  then show ?case
    using it fallback_areas_heads [of tw areas] by auto
qed

lemma preferred_reports_heads:
  "preferred_reports tw objs = Inr tw' \<Longrightarrow> tw' = tw \<or> tw' \<in> set (reports_heads objs)"
proof (induction objs arbitrary: tw)
  case Nil
  then show ?case by simp
next
  case (Cons obj rest)
  from Cons.prems obtain entries tw1 where it: "py_iter (time_series_of obj) = Inr entries"
    and a: "preferred_series tw entries = Inr tw1"
    and r: "tw' = tw1 \<or> preferred_reports tw1 rest = Inr tw'"
    by (auto split: sum.splits if_splits)
  from preferred_series_heads [OF a] have "tw1 = tw \<or> tw1 \<in> set (series_heads entries)" .
  moreover from r Cons.IH [of tw1] have "tw' = tw1 \<or> tw' \<in> set (reports_heads rest)"
    by blast
  ultimately show ?case
    using it by auto
qed

lemma fallback_reports_heads:
  "fallback_reports tw objs = Inr tw' \<Longrightarrow> tw' = tw \<or> tw' \<in> set (reports_heads objs)"
proof (induction objs arbitrary: tw)
  case Nil
  then show ?case by simp
next
  case (Cons obj rest)
  from Cons.prems obtain entries tw1 where it: "py_iter (time_series_of obj) = Inr entries"
    and a: "fallback_series tw entries = Inr tw1"
    and r: "tw' = tw1 \<or> fallback_reports tw1 rest = Inr tw'"
    by (auto split: sum.splits if_splits)
  from fallback_series_heads [OF a] have "tw1 = tw \<or> tw1 \<in> set (series_heads entries)" .
  moreover from r Cons.IH [of tw1] have "tw' = tw1 \<or> tw' \<in> set (reports_heads rest)"
    by blast
  ultimately show ?case
    using it by auto
qed

text \<open>After both passes \<open>today_weather\<close> is \<open>None\<close> or the first weather entry of
  some area of the document.\<close>

lemma resolved_weather_heads:
  assumes "preferred_pass data = Inr tw" and "fallback_pass tw data = Inr today_weather"
  shows "today_weather = JNull \<or> today_weather \<in> set (weather_heads data)"
proof (cases data)
  case (JList objs)
  with assms(1) have p: "tw = JNull \<or> tw \<in> set (reports_heads objs)"
    using preferred_reports_heads [of JNull objs tw] by (simp add: preferred_pass_def)
  from assms(2) JList have "today_weather = tw \<or> fallback_reports tw objs = Inr today_weather"
    by (auto simp: fallback_pass_def split: if_splits)
  with fallback_reports_heads [of tw objs today_weather]
  have "today_weather = tw \<or> today_weather \<in> set (reports_heads objs)"
    by blast
  with p JList show ?thesis
    by (auto simp: weather_heads_def)
qed (use assms in \<open>auto simp: preferred_pass_def fallback_pass_def\<close>)

lemma tokyo_weather_of_result:
  assumes "tokyo_weather_of str_of data = Inr s"
  shows "s = tokyo_failure \<or>
         (\<exists>w\<in>set (weather_heads data). truthy w \<and> s = tokyo_prefix @ py_format str_of w)"
proof -
  from assms obtain tw today_weather where p: "preferred_pass data = Inr tw"
    and f: "fallback_pass tw data = Inr today_weather"
    and s: "s = (if truthy today_weather then tokyo_prefix @ py_format str_of today_weather
                 else tokyo_failure)"
    by (auto simp: tokyo_weather_of_def and_then_def split: sum.splits if_splits)
  from resolved_weather_heads [OF p f] s show ?thesis
    by (cases "truthy today_weather") auto
qed

lemma success_not_failure: "tokyo_prefix @ s \<noteq> tokyo_failure"
  by (simp add: tokyo_prefix_def tokyo_failure_def)

text \<open>
  Claim C10, as the code has it. For every fetch result \<open>get_tokyo_weather\<close> returns the
  failure sentinel or a success message whose embedded weather value tests true, and
  no success message equals the sentinel. A first weather entry that is the empty
  string is therefore never reported; when no area of the document has a first weather
  entry that tests true, the result is the failure sentinel.
\<close>

theorem success_weather_truthy:
  "(fst (get_tokyo_weather get str_of log) = Inr tokyo_failure \<or>
      (\<exists>w. truthy w \<and>
         fst (get_tokyo_weather get str_of log) = Inr (tokyo_prefix @ py_format str_of w))) \<and>
   (fetch_json get log tokyo_request = Inr data \<and> (\<forall>w\<in>set (weather_heads data). \<not> truthy w)
      \<longrightarrow> fst (get_tokyo_weather get str_of log) = Inr tokyo_failure) \<and>
   tokyo_prefix @ s \<noteq> tokyo_failure"
proof (intro conjI impI)
  show "fst (get_tokyo_weather get str_of log) = Inr tokyo_failure \<or>
      (\<exists>w. truthy w \<and>
         fst (get_tokyo_weather get str_of log) = Inr (tokyo_prefix @ py_format str_of w))"
  proof (cases "and_then (fetch_json get log tokyo_request) (tokyo_weather_of str_of)")
    case (Inl e)
    then show ?thesis by (simp add: get_tokyo_weather_cases)
  next
    case (Inr r)
    then obtain data' where "tokyo_weather_of str_of data' = Inr r"
      by (cases "fetch_json get log tokyo_request") auto
    from tokyo_weather_of_result [OF this] Inr show ?thesis
      by (auto simp: get_tokyo_weather_cases)
  qed
next
  assume h: "fetch_json get log tokyo_request = Inr data
             \<and> (\<forall>w\<in>set (weather_heads data). \<not> truthy w)"
  show "fst (get_tokyo_weather get str_of log) = Inr tokyo_failure"
  proof (cases "tokyo_weather_of str_of data")
    case (Inl e)
    with h show ?thesis by (simp add: get_tokyo_weather_cases)
  next
    case (Inr r)
    from tokyo_weather_of_result [OF this] h have "r = tokyo_failure" by blast
    with Inr h show ?thesis by (simp add: get_tokyo_weather_cases)
  qed
next
  show "tokyo_prefix @ s \<noteq> tokyo_failure" by (rule success_not_failure)
qed

theorem success_weather_truthy_witness:
  "fst (get_tokyo_weather
          (scripted [GetResponse 200
             (Some (JList [report [series [area_named tokyo_chihou [JStr []]]]]))])
          blank_repr []) = Inr tokyo_failure"
  using success_weather_truthy
      [of "scripted [GetResponse 200
             (Some (JList [report [series [area_named tokyo_chihou [JStr []]]]]))]"
          blank_repr "[]" "JList [report [series [area_named tokyo_chihou [JStr []]]]]" "[]"]
  by (simp add: example_defs)

text \<open>
  A matching area whose first weather entry is the empty string does not force the
  failure sentinel: here the fallback pass passes over it as well and reports the rain
  of the area in the next time-series entry.
\<close>

theorem empty_entry_passed_over:
  "preferred_area (area_named tokyo_chihou [JStr []]) = Inr (Some (JStr [])) \<and>
   fst (get_tokyo_weather
          (scripted [GetResponse 200 (Some (JList [report
             [series [area_named tokyo_chihou [JStr []]],
              series [area_named (ascii ''Osaka'') [JStr ame]]]]))])
          blank_repr []) = Inr (tokyo_prefix @ ame) \<and>
   tokyo_prefix @ ame \<noteq> tokyo_failure"
  by (simp add: get_tokyo_weather_cases example_defs tokyo_prefix_def tokyo_failure_def)

section \<open>get_tokyo_weather: the fallback pass\<close>

text \<open>
  Claim C2. The fallback pass should report the first weather entry of the first area,
  anywhere in the document, that has a non-empty \<open>weathers\<close> list. On the document
  \<open>cloudy_second\<close> the preferred pass finds nothing and there is such an area, with the
  entry cloudy, in second position of its areas list; the code returns the failure
  sentinel, because the innermost loop of the fallback pass is left at the first area
  that is a map.
\<close>

theorem fallback_misses_second_area:
  "preferred_pass cloudy_second = Inr JNull \<and>
   weather_heads cloudy_second = [JStr kumori] \<and>
   fst (get_tokyo_weather (scripted [GetResponse 200 (Some cloudy_second)]) blank_repr [])
     = Inr tokyo_failure"
  by (simp add: get_tokyo_weather_cases cloudy_second_def example_defs)

end
